theory Spec2Isabelle
  imports Complex_Main "HOL-Library.AList" "HOL-Library.Multiset"
begin

text \<open>
  A model of the class \<^verbatim>\<open>Renderer\<close> (in \<^verbatim>\<open>src/components/sidepanel/PropertySelect.tsx\<close>
  from line 32 on; the line numbers given for the Renderer are those of that file) and of
  \<^verbatim>\<open>VideoCreatorStore\<close> (in \<^verbatim>\<open>src/stores/VideoCreatorStore.ts\<close>).
\<close>

section \<open>JavaScript values\<close>

text \<open>
  The values that travel over the message channel and that fill the \<^verbatim>\<open>Record<string, any>\<close>
  property bags of the source. An object is the list of its own properties in property
  order; \<open>Num\<close> carries the finite numbers (no claim depends on NaN or the infinities).
\<close>

datatype jsval =
    Undefined
  | Null
  | Bool bool
  | Num real
  | Str string
  | Arr "jsval list"
  | Obj "(string \<times> jsval) list"

type_synonym fields = "(string \<times> jsval) list"

text \<open>The truthiness test of \<^verbatim>\<open>if (v)\<close> and \<^verbatim>\<open>!v\<close>.\<close>

fun truthy :: "jsval \<Rightarrow> bool" where
  "truthy Undefined = False"
| "truthy Null = False"
| "truthy (Bool b) = b"
| "truthy (Num n) = (n \<noteq> 0)"
| "truthy (Str s) = (s \<noteq> [])"
| "truthy (Arr xs) = True"
| "truthy (Obj fs) = True"

text \<open>
  Reading the property \<open>k\<close> of a property bag: \<^verbatim>\<open>o[k]\<close> is \<^verbatim>\<open>undefined\<close> when the
  object has no such property. (The names read this way, \<^verbatim>\<open>type\<close>, \<^verbatim>\<open>id\<close> and
  \<^verbatim>\<open>elements\<close>, are not properties of \<^verbatim>\<open>Object.prototype\<close>.)
\<close>

definition field :: "fields \<Rightarrow> string \<Rightarrow> jsval" where
  "field fs k = (case map_of fs k of None \<Rightarrow> Undefined | Some v \<Rightarrow> v)"

text \<open>
  The object spread \<^verbatim>\<open>{...a, ...b}\<close>: the properties of \<open>b\<close> are written onto \<open>a\<close>
  one after the other; a key that \<open>a\<close> has keeps its place and takes the new value, a new
  key goes to the end.
\<close>

definition spread :: "fields \<Rightarrow> fields \<Rightarrow> fields" where
  "spread a b = fold (\<lambda>(k, v). AList.update k v) b a"

section \<open>The state tree and its three methods\<close>

text \<open>
  The parameter type of the three tree methods,
  \<^verbatim>\<open>{ source: Record<string, any>; elements?: ElementState[] }\<close>:
  \<open>elements\<close> is \<open>None\<close> when the property is absent.
\<close>

datatype state_node =
  Node (source: fields) (elements: "state_node list option")

text \<open>
  \<^verbatim>\<open>getSource\<close>, lines 108 to 121, for a state that is there. The recursive call of line 116
  passes an element of the array, so its default parameter never applies.
  \<^verbatim>\<open>state.elements\<close> is an array when present, and every array is truthy.
\<close>

fun getSource_node :: "state_node \<Rightarrow> fields" where
  "getSource_node (Node src (Some es)) =
     spread src [(''elements'', Arr (map (\<lambda>element. Obj (getSource_node element)) es))]"
| "getSource_node (Node src None) = src"

text \<open>
  The method itself: the parameter \<^verbatim>\<open>state\<close> defaults to \<^verbatim>\<open>this.state\<close> when the
  argument is \<^verbatim>\<open>undefined\<close>; \<^verbatim>\<open>!state\<close> gives the empty object.
\<close>

definition default_state :: "state_node option \<Rightarrow> state_node option \<Rightarrow> state_node option" where
  "default_state this_state arg = (case arg of None \<Rightarrow> this_state | Some s \<Rightarrow> Some s)"

definition getSource :: "state_node option \<Rightarrow> state_node option \<Rightarrow> fields" where
  "getSource this_state arg =
     (case default_state this_state arg of
        None \<Rightarrow> []
      | Some state \<Rightarrow> getSource_node state)"

text \<open>\<^verbatim>\<open>getElements\<close>, lines 123 to 139.\<close>

fun getElements_node :: "state_node \<Rightarrow> state_node list" where
  "getElements_node (Node src els) =
     (if truthy (field src ''type'') then [Node src els] else []) @
     (case els of
        Some es \<Rightarrow> concat (map getElements_node es)
      | None \<Rightarrow> [])"

definition getElements :: "state_node option \<Rightarrow> state_node option \<Rightarrow> state_node list" where
  "getElements this_state arg =
     (case default_state this_state arg of
        None \<Rightarrow> []
      | Some state \<Rightarrow> getElements_node state)"

text \<open>
  \<^verbatim>\<open>findElement\<close>, lines 141 to 160: the loop over \<^verbatim>\<open>state.elements\<close> is
  \<open>findElement_loop\<close>. A found element is an object, hence truthy at line 153.
\<close>

fun findElement_node :: "(state_node \<Rightarrow> bool) \<Rightarrow> state_node \<Rightarrow> state_node option"
  and findElement_loop :: "(state_node \<Rightarrow> bool) \<Rightarrow> state_node list \<Rightarrow> state_node option" where
  "findElement_node predicate (Node src (Some es)) = findElement_loop predicate es"
| "findElement_node predicate (Node src None) = None"
| "findElement_loop predicate [] = None"
| "findElement_loop predicate (element # rest) =
     (if predicate element then Some element
      else case (if elements element \<noteq> None then findElement_node predicate element else None) of
             Some foundNestedElement \<Rightarrow> Some foundNestedElement
           | None \<Rightarrow> findElement_loop predicate rest)"

definition findElement ::
  "state_node option \<Rightarrow> (state_node \<Rightarrow> bool) \<Rightarrow> state_node option \<Rightarrow> state_node option" where
  "findElement this_state predicate arg =
     (case default_state this_state arg of
        None \<Rightarrow> None
      | Some state \<Rightarrow> findElement_node predicate state)"

section \<open>The Renderer: pending calls, commands and inbound messages\<close>

text \<open>
  A promise is named by a number: the identity of the object that \<^verbatim>\<open>new Promise\<close> makes at
  line 215. The entry \<^verbatim>\<open>{ resolve, reject }\<close> stored for it is that promise's pair of
  callbacks, so the table holds the promise.
\<close>

type_synonym promise = nat

text \<open>
  The object \<^verbatim>\<open>args\<close> of line 224, the rest of \<^verbatim>\<open>e.data\<close> once \<^verbatim>\<open>id\<close>,
  \<^verbatim>\<open>message\<close> and \<^verbatim>\<open>error\<close> are taken out: \<^verbatim>\<open>args.state\<close>, which line 290 stores
  as a \<^verbatim>\<open>RendererState\<close>, and the remaining properties.
\<close>

record args =
  arg_state :: "state_node option"
  arg_fields :: fields

text \<open>
  The destructured \<^verbatim>\<open>e.data\<close>. The ids of the protocol are strings (\<^verbatim>\<open>uuid()\<close> returns
  one and the peer sends it back), so \<open>msg_id\<close> is a string or absent.
\<close>

record inbound =
  msg_id :: "string option"
  msg_message :: jsval
  msg_error :: jsval
  msg_args :: args

text \<open>\<open>NotObject\<close> is a payload that line 220 turns away: falsy, or not of type object.\<close>

datatype event_data = NotObject | Data inbound

datatype settlement =
    Resolved args
  | Rejected jsval

datatype observer =
    OnReady | OnLoad | OnLoadComplete | OnPlay | OnPause | OnError
  | OnTimeChange | OnActiveElementsChange | OnStateChange

datatype observer_arg = NoArg | JsArg jsval | StateArg "state_node option"

text \<open>
  What a call does to the world outside the Renderer object, in the order it does it:
  \<^item> \<open>Settle p (Resolved a)\<close> is \<^verbatim>\<open>pendingPromise.resolve(a)\<close>, \<open>Settle p (Rejected e)\<close> is
    \<^verbatim>\<open>pendingPromise.reject(new Error(e))\<close>, for the entry of promise \<open>p\<close>;
  \<^item> \<open>Notify ob st a\<close> is the call \<^verbatim>\<open>this.onX(this, a)\<close> of an observer, \<open>st\<close> being
    \<^verbatim>\<open>this.state\<close> at the moment of the call;
  \<^item> \<open>Post payload\<close> is \<^verbatim>\<open>contentWindow.postMessage(payload, '*')\<close>.
\<close>

datatype effect =
    Settle promise settlement
  | Notify observer "state_node option" observer_arg
  | Post fields

datatype js_error = TypeError

text \<open>
  The fields of the class. An observer field is \<open>True\<close> when a callback is assigned to it;
  \<open>pendingPromises\<close> lists the own properties of \<^verbatim>\<open>_pendingPromises\<close>; \<open>listening\<close> tells
  whether \<^verbatim>\<open>_handleMessage\<close> is registered on the window; \<open>iframe_attached\<close> tells
  whether the iframe is part of a document, which is when its \<^verbatim>\<open>contentWindow\<close> is
  there: it has a parent node, and that parent is in a document.
\<close>

record renderer =
  onReady :: bool
  onLoad :: bool
  onLoadComplete :: bool
  onPlay :: bool
  onPause :: bool
  onError :: bool
  onTimeChange :: bool
  onActiveElementsChange :: bool
  onStateChange :: bool
  state :: "state_node option"
  pendingPromises :: "(string \<times> promise) list"
  listening :: bool
  iframe_attached :: bool
  iframe_src :: string
  iframe_display :: string

text \<open>
  The constructor, lines 61 to 77. Of the host \<^verbatim>\<open>element\<close> the model keeps whether it is
  part of a document: line 72 appends the iframe to it, and the iframe gets a
  \<^verbatim>\<open>contentWindow\<close> only there. Nothing in the class moves the host afterwards.
\<close>

definition Renderer_new :: "bool \<Rightarrow> string \<Rightarrow> string \<Rightarrow> renderer" where
  "Renderer_new element_in_document mode publicToken =
     \<lparr> onReady = False, onLoad = False, onLoadComplete = False, onPlay = False,
       onPause = False, onError = False, onTimeChange = False,
       onActiveElementsChange = False, onStateChange = False,
       state = None,
       pendingPromises = [],
       listening = True,
       iframe_attached = element_in_document,
       iframe_src = ''https://creatomate.com/embed?mode='' @ mode @ ''&token='' @ publicToken,
       iframe_display = ''none'' \<rparr>"

text \<open>
  \<^verbatim>\<open>dispose\<close>, lines 79 to 84: the listener is removed, the iframe is taken out of its parent
  and its \<^verbatim>\<open>src\<close> is emptied. The result has the shape of every other call: what was
  done outside, and the object afterwards.
\<close>

definition dispose :: "renderer \<Rightarrow> effect list \<times> renderer" where
  "dispose this =
     ([], this\<lparr>listening := False, iframe_attached := False, iframe_src := []\<rparr>)"

text \<open>
  \<^verbatim>\<open>JSON.parse(JSON.stringify(v))\<close>: a property whose value is \<^verbatim>\<open>undefined\<close> is left
  out of an object, and \<^verbatim>\<open>undefined\<close> in an array becomes \<^verbatim>\<open>null\<close>.
\<close>

fun json_roundtrip :: "jsval \<Rightarrow> jsval" where
  "json_roundtrip Undefined = Null"
| "json_roundtrip (Arr xs) = Arr (map json_roundtrip xs)"
| "json_roundtrip (Obj fs) =
     Obj (map (\<lambda>(k, v). (k, json_roundtrip v)) (filter (\<lambda>(k, v). v \<noteq> Undefined) fs))"
| "json_roundtrip v = v"

definition json_roundtrip_fields :: "fields \<Rightarrow> fields" where
  "json_roundtrip_fields fs =
     map (\<lambda>(k, v). (k, json_roundtrip v)) (filter (\<lambda>(k, v). v \<noteq> Undefined) fs)"

text \<open>
  \<^verbatim>\<open>_sendCommand\<close>, lines 210 to 216. \<open>uid\<close> is the value of \<^verbatim>\<open>uuid()\<close> and \<open>p\<close> the new
  promise. Nothing is posted when \<^verbatim>\<open>contentWindow\<close> is missing; the entry is stored
  either way. The key is a uuid string, for which the assignment writes an own property.
\<close>

definition sendCommand :: "string \<Rightarrow> promise \<Rightarrow> fields \<Rightarrow> renderer \<Rightarrow> effect list \<times> renderer" where
  "sendCommand uid p message this =
     ((if iframe_attached this
       then [Post (spread [(''id'', Str uid)] (json_roundtrip_fields message))]
       else []),
      this\<lparr>pendingPromises := AList.update uid p (pendingPromises this)\<rparr>)"

text \<open>
  The ten commands of the class, lines 86 to 208, and the message object each one hands to
  \<^verbatim>\<open>_sendCommand\<close>.
\<close>

datatype command =
    LoadTemplate string
  | SetSource fields bool
  | SetModifications fields
  | ApplyModifications fields
  | Undo
  | Redo
  | SetActiveElements "string list"
  | SetTime real
  | Play
  | Pause

fun command_message :: "command \<Rightarrow> fields" where
  "command_message (LoadTemplate templateId) =
     [(''message'', Str ''setTemplate''), (''templateId'', Str templateId)]"
| "command_message (SetSource src createUndoPoint) =
     [(''message'', Str ''setSource''), (''source'', Obj src),
      (''createUndoPoint'', Bool createUndoPoint)]"
| "command_message (SetModifications modifications) =
     [(''message'', Str ''setModifications''), (''modifications'', Obj modifications)]"
| "command_message (ApplyModifications modifications) =
     [(''message'', Str ''applyModifications''), (''modifications'', Obj modifications)]"
| "command_message Undo = [(''message'', Str ''undo'')]"
| "command_message Redo = [(''message'', Str ''redo'')]"
| "command_message (SetActiveElements elementIds) =
     [(''message'', Str ''setActiveElements''), (''elementIds'', Arr (map Str elementIds))]"
| "command_message (SetTime t) = [(''message'', Str ''setTime''), (''time'', Num t)]"
| "command_message Play = [(''message'', Str ''play'')]"
| "command_message Pause = [(''message'', Str ''pause'')]"

text \<open>
  A call of one of the ten methods, up to the return of its promise. (\<^verbatim>\<open>loadTemplate\<close> and
  \<^verbatim>\<open>setSource\<close> show the iframe only after the reply; the \<^verbatim>\<open>catch\<close> of each method
  rewords a rejection and touches neither the object nor the payload.)
\<close>

definition call :: "string \<Rightarrow> promise \<Rightarrow> command \<Rightarrow> renderer \<Rightarrow> effect list \<times> renderer" where
  "call uid p c this = sendCommand uid p (command_message c) this"

text \<open>
  Reading \<^verbatim>\<open>this._pendingPromises[id]\<close>, line 228. The table starts as the object
  literal \<^verbatim>\<open>{}\<close> (line 59), whose prototype is \<^verbatim>\<open>Object.prototype\<close>: a key that is no own
  property is looked up there, where each of the names below holds a function or an object
  that has neither a \<^verbatim>\<open>resolve\<close> nor a \<^verbatim>\<open>reject\<close> method.
\<close>

definition object_prototype_keys :: "string list" where
  "object_prototype_keys =
     [''constructor'', ''hasOwnProperty'', ''isPrototypeOf'', ''propertyIsEnumerable'',
      ''toLocaleString'', ''toString'', ''valueOf'', ''__proto__'',
      ''__defineGetter__'', ''__defineSetter__'', ''__lookupGetter__'', ''__lookupSetter__'']"

datatype pending_lookup = NotFound | OwnEntry promise | Inherited

definition lookup_pending :: "(string \<times> promise) list \<Rightarrow> string \<Rightarrow> pending_lookup" where
  "lookup_pending table k =
     (case map_of table k of
        Some p \<Rightarrow> OwnEntry p
      | None \<Rightarrow> if k \<in> set object_prototype_keys then Inherited else NotFound)"

text \<open>What a reply carries for its caller, lines 230 to 234.\<close>

definition outcome :: "inbound \<Rightarrow> settlement" where
  "outcome d = (if truthy (msg_error d) then Rejected (msg_error d) else Resolved (msg_args d))"

text \<open>
  The branch \<^verbatim>\<open>if (id)\<close> of \<^verbatim>\<open>_handleMessage\<close>, lines 226 to 238. An inherited value is
  truthy, and calling its missing \<^verbatim>\<open>resolve\<close> or \<^verbatim>\<open>reject\<close> throws a TypeError before
  line 237 is reached.
\<close>

definition handleReply :: "string \<Rightarrow> inbound \<Rightarrow> renderer \<Rightarrow> js_error + (effect list \<times> renderer)" where
  "handleReply uid d this =
     (case lookup_pending (pendingPromises this) uid of
        NotFound \<Rightarrow> Inr ([], this)
      | Inherited \<Rightarrow> Inl TypeError
      | OwnEntry p \<Rightarrow>
          Inr ([Settle p (outcome d)],
               this\<lparr>pendingPromises := AList.delete uid (pendingPromises this)\<rparr>))"

text \<open>The \<^verbatim>\<open>switch (message)\<close>, lines 240 to 295.\<close>

definition notify :: "bool \<Rightarrow> observer \<Rightarrow> observer_arg \<Rightarrow> renderer \<Rightarrow> effect list" where
  "notify assigned ob a this = (if assigned then [Notify ob (state this) a] else [])"

definition handleEvent :: "inbound \<Rightarrow> renderer \<Rightarrow> effect list \<times> renderer" where
  "handleEvent d this =
     (let message = msg_message d; args = msg_args d in
      if message = Str ''onReady'' then (notify (onReady this) OnReady NoArg this, this)
      else if message = Str ''onLoad'' then (notify (onLoad this) OnLoad NoArg this, this)
      else if message = Str ''onLoadComplete'' then
        (notify (onLoadComplete this) OnLoadComplete NoArg this, this)
      else if message = Str ''onPlay'' then (notify (onPlay this) OnPlay NoArg this, this)
      else if message = Str ''onPause'' then (notify (onPause this) OnPause NoArg this, this)
      else if message = Str ''onError'' then
        (notify (onError this) OnError (JsArg (field (arg_fields args) ''error'')) this, this)
      else if message = Str ''onTimeChange'' then
        (notify (onTimeChange this) OnTimeChange (JsArg (field (arg_fields args) ''time'')) this,
         this)
      else if message = Str ''onActiveElementsChange'' then
        (notify (onActiveElementsChange this) OnActiveElementsChange
           (JsArg (field (arg_fields args) ''elementIds'')) this,
         this)
      else if message = Str ''onStateChange'' then
        (let this' = this\<lparr>state := arg_state args\<rparr>
         in (notify (onStateChange this') OnStateChange (StateArg (arg_state args)) this', this'))
      else ([], this))"

text \<open>\<^verbatim>\<open>_handleMessage\<close>, lines 219 to 297. The empty string is the falsy string.\<close>

definition handleMessage :: "event_data \<Rightarrow> renderer \<Rightarrow> js_error + (effect list \<times> renderer)" where
  "handleMessage e this =
     (case e of
        NotObject \<Rightarrow> Inr ([], this)
      | Data d \<Rightarrow>
          (case msg_id d of
             Some uid \<Rightarrow> if uid \<noteq> [] then handleReply uid d this else Inr (handleEvent d this)
           | None \<Rightarrow> Inr (handleEvent d this)))"

text \<open>
  A message event on the window reaches \<^verbatim>\<open>_handleMessage\<close> while the listener of line 74
  is registered, and nothing of the Renderer after line 80 has removed it.
\<close>

definition window_message :: "event_data \<Rightarrow> renderer \<Rightarrow> js_error + (effect list \<times> renderer)" where
  "window_message e this = (if listening this then handleMessage e this else Inr ([], this))"


fun handleAll :: "event_data list \<Rightarrow> renderer \<Rightarrow> js_error + (effect list \<times> renderer)" where
  "handleAll [] this = Inr ([], this)"
| "handleAll (e # es) this =
     (case handleMessage e this of
        Inl err \<Rightarrow> Inl err
      | Inr (out1, this1) \<Rightarrow>
          (case handleAll es this1 of
             Inl err \<Rightarrow> Inl err
           | Inr (out2, this2) \<Rightarrow> Inr (out1 @ out2, this2)))"

text \<open>What the caller holding promise \<open>p\<close> received, and what went to the peer.\<close>

fun settlements_of :: "promise \<Rightarrow> effect list \<Rightarrow> settlement list" where
  "settlements_of p [] = []"
| "settlements_of p (Settle q s # es) =
     (if q = p then s # settlements_of p es else settlements_of p es)"
| "settlements_of p (e # es) = settlements_of p es"

fun posted :: "effect list \<Rightarrow> fields list" where
  "posted [] = []"
| "posted (Post payload # es) = payload # posted es"
| "posted (e # es) = posted es"

section \<open>The store\<close>

text \<open>
  The fields of \<^verbatim>\<open>VideoCreatorStore\<close> that the methods below read or write (\<^verbatim>\<open>tracks\<close>
  is filled by \<^verbatim>\<open>groupBy\<close> only). The store is the one holder of its Renderer.
\<close>

record VideoCreatorStore =
  renderer :: "renderer option"
  state :: "state_node option"
  activeElementIds :: "string list"
  isLoading :: bool
  isPlaying :: bool
  time :: real
  timelineScale :: real
  isScrubbing :: bool

text \<open>The field initialisers, lines 10 to 26.\<close>

definition VideoCreatorStore_new :: VideoCreatorStore where
  "VideoCreatorStore_new =
     \<lparr> renderer = None, state = None, activeElementIds = [], isLoading = True,
       isPlaying = False, time = 0, timelineScale = 100, isScrubbing = False \<rparr>"

text \<open>The observer assigned to \<^verbatim>\<open>renderer.onTimeChange\<close>, lines 62 to 66.\<close>

definition onTimeChange_observer :: "real \<Rightarrow> VideoCreatorStore \<Rightarrow> VideoCreatorStore" where
  "onTimeChange_observer t this = (if \<not> isScrubbing this then this\<lparr>time := t\<rparr> else this)"

text \<open>
  \<^verbatim>\<open>setTime\<close>, lines 80 to 83: the assignment, then \<^verbatim>\<open>Renderer.setTime\<close> when there is a
  renderer, with the uuid and the promise that call takes.
\<close>

definition setTime :: "string \<Rightarrow> promise \<Rightarrow> real \<Rightarrow> VideoCreatorStore \<Rightarrow> effect list \<times> VideoCreatorStore" where
  "setTime uid p t this =
     (let this1 = this\<lparr>time := t\<rparr> in
      case renderer this1 of
        None \<Rightarrow> ([], this1)
      | Some r \<Rightarrow>
          (let (out, r') = call uid p (SetTime t) r in (out, this1\<lparr>renderer := Some r'\<rparr>)))"

text \<open>
  \<^verbatim>\<open>getActiveElement\<close>, lines 90 to 97. \<open>videoCreator\<close> is the module's exported instance
  (line 271), \<open>this\<close> the instance the method is called on. The class is not exported
  (line 9) and line 271 is its one construction, so in the program \<open>this\<close> is
  \<open>videoCreator\<close>. Reading index 0 of an empty
  array gives \<^verbatim>\<open>undefined\<close>; the predicate is \<^verbatim>\<open>element.source.id === id\<close>.
\<close>

definition id_is :: "jsval \<Rightarrow> state_node \<Rightarrow> bool" where
  "id_is uid element = (field (source element) ''id'' = uid)"

definition getActiveElement :: "VideoCreatorStore \<Rightarrow> VideoCreatorStore \<Rightarrow> state_node option" where
  "getActiveElement videoCreator this =
     (case renderer this of
        None \<Rightarrow> None
      | Some r \<Rightarrow>
          if length (activeElementIds this) = 0 then None
          else
            (let uid = (case activeElementIds videoCreator of [] \<Rightarrow> Undefined | i # _ \<Rightarrow> Str i)
             in findElement (renderer.state r) (id_is uid) (state this)))"

section \<open>Notions of the specification\<close>

text \<open>
  The nodes of a state tree in depth-first pre-order: a node, then the pre-order of each
  of its children in turn. \<open>descendants\<close> leaves the node itself out.
\<close>

definition children :: "state_node \<Rightarrow> state_node list" where
  "children n = (case elements n of None \<Rightarrow> [] | Some es \<Rightarrow> es)"

fun preorder :: "state_node \<Rightarrow> state_node list" where
  "preorder (Node src els) =
     Node src els # concat (map preorder (case els of None \<Rightarrow> [] | Some es \<Rightarrow> es))"

definition descendants :: "state_node \<Rightarrow> state_node list" where
  "descendants n = concat (map preorder (children n))"

text \<open>A node has a type tag when the \<^verbatim>\<open>type\<close> of its source descriptor is truthy.\<close>

definition has_type_tag :: "state_node \<Rightarrow> bool" where
  "has_type_tag n = truthy (field (source n) ''type'')"

text \<open>The name and the parameters of a command, and the fixed names of the events.\<close>

definition command_name :: "command \<Rightarrow> string" where
  "command_name c =
     (case c of
        LoadTemplate _ \<Rightarrow> ''setTemplate''
      | SetSource _ _ \<Rightarrow> ''setSource''
      | SetModifications _ \<Rightarrow> ''setModifications''
      | ApplyModifications _ \<Rightarrow> ''applyModifications''
      | Undo \<Rightarrow> ''undo''
      | Redo \<Rightarrow> ''redo''
      | SetActiveElements _ \<Rightarrow> ''setActiveElements''
      | SetTime _ \<Rightarrow> ''setTime''
      | Play \<Rightarrow> ''play''
      | Pause \<Rightarrow> ''pause'')"

definition command_params :: "command \<Rightarrow> fields" where
  "command_params c =
     (case c of
        LoadTemplate templateId \<Rightarrow> [(''templateId'', Str templateId)]
      | SetSource src createUndoPoint \<Rightarrow>
          [(''source'', Obj src), (''createUndoPoint'', Bool createUndoPoint)]
      | SetModifications modifications \<Rightarrow> [(''modifications'', Obj modifications)]
      | ApplyModifications modifications \<Rightarrow> [(''modifications'', Obj modifications)]
      | SetActiveElements elementIds \<Rightarrow> [(''elementIds'', Arr (map Str elementIds))]
      | SetTime t \<Rightarrow> [(''time'', Num t)]
      | _ \<Rightarrow> [])"

definition event_names :: "string list" where
  "event_names =
     [''onReady'', ''onLoad'', ''onLoadComplete'', ''onPlay'', ''onPause'', ''onError'',
      ''onTimeChange'', ''onActiveElementsChange'', ''onStateChange'']"

text \<open>
  The observer that belongs to an event name, whether the Renderer has a callback assigned
  for an observer, and the argument an observer is called with.
\<close>

definition event_of :: "jsval \<Rightarrow> observer option" where
  "event_of m =
     (if m = Str ''onReady'' then Some OnReady
      else if m = Str ''onLoad'' then Some OnLoad
      else if m = Str ''onLoadComplete'' then Some OnLoadComplete
      else if m = Str ''onPlay'' then Some OnPlay
      else if m = Str ''onPause'' then Some OnPause
      else if m = Str ''onError'' then Some OnError
      else if m = Str ''onTimeChange'' then Some OnTimeChange
      else if m = Str ''onActiveElementsChange'' then Some OnActiveElementsChange
      else if m = Str ''onStateChange'' then Some OnStateChange
      else None)"

fun assigned :: "observer \<Rightarrow> renderer \<Rightarrow> bool" where
  "assigned OnReady this = onReady this"
| "assigned OnLoad this = onLoad this"
| "assigned OnLoadComplete this = onLoadComplete this"
| "assigned OnPlay this = onPlay this"
| "assigned OnPause this = onPause this"
| "assigned OnError this = onError this"
| "assigned OnTimeChange this = onTimeChange this"
| "assigned OnActiveElementsChange this = onActiveElementsChange this"
| "assigned OnStateChange this = onStateChange this"

fun event_arg :: "observer \<Rightarrow> args \<Rightarrow> observer_arg" where
  "event_arg OnError a = JsArg (field (arg_fields a) ''error'')"
| "event_arg OnTimeChange a = JsArg (field (arg_fields a) ''time'')"
| "event_arg OnActiveElementsChange a = JsArg (field (arg_fields a) ''elementIds'')"
| "event_arg OnStateChange a = StateArg (arg_state a)"
| "event_arg ob a = NoArg"

fun is_notification :: "effect \<Rightarrow> bool" where
  "is_notification (Notify ob st a) = True"
| "is_notification e = False"


text \<open>
  The lookup that the specification intends for \<^verbatim>\<open>getActiveElement\<close>: the first id of
  the instance's own selection.
\<close>

definition own_active_element :: "VideoCreatorStore \<Rightarrow> state_node option" where
  "own_active_element this =
     (case renderer this of
        None \<Rightarrow> None
      | Some r \<Rightarrow>
          (case activeElementIds this of
             [] \<Rightarrow> None
           | i # _ \<Rightarrow> findElement (renderer.state r) (id_is (Str i)) (state this)))"


definition two_elements :: "state_node" where
  "two_elements =
     Node [] (Some [Node [(''id'', Str ''a''), (''type'', Str ''image'')] None,
                    Node [(''id'', Str ''b''), (''type'', Str ''text'')] None])"

section \<open>Property lists\<close>

lemma spread_single: "spread a [(k, v)] = AList.update k v a"
  by (simp add: spread_def)

lemma delete_update_same: "AList.delete k (AList.update k v al) = AList.delete k al"
  by (induction al) (auto simp: AList.delete_eq)

lemma keys_update:
  "map fst (AList.update k v al) = (if k \<in> fst ` set al then map fst al else map fst al @ [k])"
  by (induction al) auto

lemma field_update_same: "field (AList.update k v al) k = v"
  by (simp add: field_def update_conv')

section \<open>The tree methods\<close>

lemma has_type_tag_Node: "has_type_tag (Node src els) = truthy (field src ''type'')"
  by (simp add: has_type_tag_def)

lemma getElements_node_filter: "getElements_node s = filter has_type_tag (preorder s)"
proof (induction s rule: getElements_node.induct)
  case (1 src els)
  show ?case
  proof (cases els)
    case None
    then show ?thesis by (simp add: has_type_tag_Node)
  next
    case (Some es)
    have "concat (map getElements_node es) = concat (map (\<lambda>e. filter has_type_tag (preorder e)) es)"
      using 1 Some by (auto intro!: arg_cong[where f=concat])
    then show ?thesis using Some
      by (simp add: has_type_tag_Node filter_concat comp_def)
  qed
qed

lemma find_append:
  "List.find P (xs @ ys) = (case List.find P xs of Some x \<Rightarrow> Some x | None \<Rightarrow> List.find P ys)"
  by (induction xs) auto

lemma findElement_find:
  "findElement_node p s = List.find p (descendants s)"
  "findElement_loop p es = List.find p (concat (map preorder es))"
proof (induction p s and p es rule: findElement_node_findElement_loop.induct)
  case (1 p src es)
  then show ?case by (simp add: descendants_def children_def)
next
  case (2 p src)
  then show ?case by (simp add: descendants_def children_def)
next
  case (3 p)
  then show ?case by simp
next
  case (4 p element rest)
  obtain src els where e: "element = Node src els" by (cases element)
  show ?case
  proof (cases "p element")
    case True
    then show ?thesis by (simp add: e)
  next
    case False
    show ?thesis
    proof (cases els)
      case None
      then show ?thesis using False 4 e by simp
    next
      case (Some cs)
      then show ?thesis using False 4 e
        by (simp add: find_append descendants_def children_def split: option.splits)
    qed
  qed
qed

text \<open>
  Claim C4. For a node without an \<^verbatim>\<open>elements\<close> collection \<^verbatim>\<open>getSource\<close> returns
  the source descriptor as it is. For a node with one, the result has the converted
  children, in their order, under \<^verbatim>\<open>elements\<close>; every other property is the descriptor's,
  in the descriptor's order; \<^verbatim>\<open>elements\<close> keeps its place when the descriptor has it and
  comes last otherwise. The state is the argument or, without one, the cached state; when
  there is no state the result is the empty document.
\<close>

theorem getSource_cases:
  "getSource cached (Some (Node src None)) = src
   \<and> field (getSource cached (Some (Node src (Some es)))) ''elements''
       = Arr (map (\<lambda>element. Obj (getSource cached (Some element))) es)
   \<and> AList.delete ''elements'' (getSource cached (Some (Node src (Some es))))
       = AList.delete ''elements'' src
   \<and> map fst (getSource cached (Some (Node src (Some es))))
       = (if ''elements'' \<in> set (map fst src) then map fst src else map fst src @ [''elements''])
   \<and> getSource (Some s) None = getSource cached (Some s)
   \<and> getSource None None = []"
proof -
  have node: "getSource c (Some n) = getSource_node n" for c n
    by (simp add: getSource_def default_state_def)
  have dflt: "getSource (Some s) None = getSource_node s"
    by (simp add: getSource_def default_state_def)
  have none: "getSource None None = []"
    by (simp add: getSource_def default_state_def)
  show ?thesis
    unfolding node dflt none
    by (simp add: spread_single field_update_same delete_update_same keys_update)
qed

text \<open>
  Claim C6. \<^verbatim>\<open>getElements\<close> returns the nodes of the state tree that have a type tag, in
  depth-first pre-order: the nodes without one are left out and their children are still
  visited. The state is the argument or, without one, the cached state; with neither the
  result is empty.
\<close>

theorem getElements_preorder:
  "getElements cached (Some s) = filter has_type_tag (preorder s)
   \<and> getElements (Some s) None = filter has_type_tag (preorder s)
   \<and> getElements None None = []"
  by (simp add: getElements_def default_state_def getElements_node_filter)

text \<open>
  Claim C7, as stated, fails: a root that satisfies the predicate is the first match of
  the pre-order, and \<^verbatim>\<open>findElement\<close> does not return it.
\<close>

theorem findElement_root_counterexample:
  "List.find (id_is (Str ''a'')) (preorder (Node [(''id'', Str ''a'')] None))
     = Some (Node [(''id'', Str ''a'')] None)
   \<and> findElement None (id_is (Str ''a'')) (Some (Node [(''id'', Str ''a'')] None)) = None"
  by (simp add: findElement_def default_state_def id_is_def field_def)

text \<open>
  Claim C7, amended. \<^verbatim>\<open>findElement\<close> returns the first node satisfying the predicate among
  the descendants of the node it is given, typed or not, in depth-first pre-order (the
  children of a node before its next sibling); the given node itself is not tested. The
  result is \<^verbatim>\<open>undefined\<close> when no descendant matches or when there is no state. The
  pre-order of a node is the node followed by its descendants.
\<close>

theorem findElement_descendants:
  "findElement cached predicate (Some s) = List.find predicate (descendants s)
   \<and> findElement (Some s) predicate None = List.find predicate (descendants s)
   \<and> findElement None predicate None = None
   \<and> preorder s = s # descendants s"
proof -
  have "preorder s = s # descendants s"
    by (cases s) (simp add: descendants_def children_def)
  then show ?thesis
    by (simp add: findElement_def default_state_def findElement_find(1))
qed

section \<open>Pending calls and replies\<close>









text \<open>
  A reply for a stored id settles its promise once and removes the entry; the id is then
  in the table no more.
\<close>

lemma reply_settles_once:
  assumes "msg_id d = Some uid" "uid \<noteq> []" "map_of (pendingPromises this) uid = Some p"
  shows "handleMessage (Data d) this =
           Inr ([Settle p (outcome d)],
                this\<lparr>pendingPromises := AList.delete uid (pendingPromises this)\<rparr>)"
    and "map_of (AList.delete uid (pendingPromises this)) uid = None"
  using assms by (simp_all add: handleMessage_def handleReply_def lookup_pending_def delete_conv')

text \<open>
  A reply whose id is not stored, a second reply among them, does nothing when the id is
  no property name of \<^verbatim>\<open>Object.prototype\<close>, and raises when it is one.
\<close>

lemma unknown_reply_noop:
  assumes "msg_id d = Some uid" "uid \<noteq> []" "map_of (pendingPromises this) uid = None"
    "uid \<notin> set object_prototype_keys"
  shows "handleMessage (Data d) this = Inr ([], this)"
  using assms by (simp add: handleMessage_def handleReply_def lookup_pending_def)

lemma unknown_reply_raises:
  assumes "msg_id d = Some uid" "map_of (pendingPromises this) uid = None"
    "uid \<in> set object_prototype_keys"
  shows "handleMessage (Data d) this = Inl TypeError"
proof -
  from assms(3) have "uid \<noteq> []" by (auto simp: object_prototype_keys_def)
  then show ?thesis
    using assms by (simp add: handleMessage_def handleReply_def lookup_pending_def)
qed

text \<open>
  A reply delivered twice, under an id that is no property name of \<^verbatim>\<open>Object.prototype\<close>,
  settles the promise once: the second delivery does nothing.
\<close>

lemma duplicate_reply_settles_once:
  assumes "msg_id d = Some uid" "uid \<noteq> []" "map_of (pendingPromises this) uid = Some p"
    "uid \<notin> set object_prototype_keys"
  shows "handleAll [Data d, Data d] this =
           Inr ([Settle p (outcome d)],
                this\<lparr>pendingPromises := AList.delete uid (pendingPromises this)\<rparr>)"
proof -
  let ?this1 = "this\<lparr>pendingPromises := AList.delete uid (pendingPromises this)\<rparr>"
  have first: "handleMessage (Data d) this = Inr ([Settle p (outcome d)], ?this1)"
    using assms(1-3) by (rule reply_settles_once(1))
  have gone: "map_of (pendingPromises ?this1) uid = None"
    by (simp add: delete_conv')
  have second: "handleMessage (Data d) ?this1 = Inr ([], ?this1)"
    using assms(1,2) gone assms(4) by (rule unknown_reply_noop)
  show ?thesis
    by (simp add: first second)
qed

text \<open>
  Claim C3 holds of the specification and not of the code. On a new Renderer, whose table
  is empty, a payload with the id \<^verbatim>\<open>constructor\<close> matches no live entry; line 228 reads
  the inherited \<^verbatim>\<open>Object\<close> function, which is truthy, and line 233 calls its missing
  \<^verbatim>\<open>resolve\<close>: the handler throws a TypeError where the claim wants nothing to happen.
\<close>

theorem inherited_key_raises:
  "handleMessage
     (Data \<lparr> msg_id = Some ''constructor'', msg_message = Undefined, msg_error = Undefined,
             msg_args = \<lparr> arg_state = None, arg_fields = [] \<rparr> \<rparr>)
     (Renderer_new True ''interactive'' ''token'') = Inl TypeError"
  by (simp add: handleMessage_def handleReply_def lookup_pending_def object_prototype_keys_def
      Renderer_new_def)

section \<open>Disposal\<close>

text \<open>
  Claim C1, as stated, fails: a call is pending when \<^verbatim>\<open>dispose\<close> runs; its promise is not
  settled and its entry stays in the table.
\<close>

theorem dispose_rejects_pending_counterexample:
  "settlements_of 0
     (fst (dispose (snd (call ''c1'' 0 Play (Renderer_new True ''interactive'' ''token''))))) = []
   \<and> pendingPromises (snd (dispose (snd (call ''c1'' 0 Play (Renderer_new True ''interactive'' ''token'')))))
       = [(''c1'', 0)]"
  by (simp add: dispose_def call_def sendCommand_def Renderer_new_def)

text \<open>
  Claim C1, amended. \<^verbatim>\<open>dispose\<close> settles no pending call and leaves the table of pending
  calls as it is. After it the Renderer handles no message event any more, so no later
  reply settles a pending call either, and a command issued after it posts nothing.
\<close>

theorem dispose_settles_nothing:
  "fst (dispose this) = []
   \<and> pendingPromises (snd (dispose this)) = pendingPromises this
   \<and> window_message e (snd (dispose this)) = Inr ([], snd (dispose this))
   \<and> posted (fst (call uid p c (snd (dispose this)))) = []"
  by (simp add: dispose_def window_message_def call_def sendCommand_def)

section \<open>Events\<close>

lemma event_of_cases:
  assumes "event_of m = Some ob"
  shows "(m = Str ''onReady'' \<and> ob = OnReady)
       \<or> (m = Str ''onLoad'' \<and> ob = OnLoad)
       \<or> (m = Str ''onLoadComplete'' \<and> ob = OnLoadComplete)
       \<or> (m = Str ''onPlay'' \<and> ob = OnPlay)
       \<or> (m = Str ''onPause'' \<and> ob = OnPause)
       \<or> (m = Str ''onError'' \<and> ob = OnError)
       \<or> (m = Str ''onTimeChange'' \<and> ob = OnTimeChange)
       \<or> (m = Str ''onActiveElementsChange'' \<and> ob = OnActiveElementsChange)
       \<or> (m = Str ''onStateChange'' \<and> ob = OnStateChange)"
  using assms unfolding event_of_def by (simp split: if_splits)

lemma handleEvent_recognized:
  assumes "event_of (msg_message d) = Some ob"
  shows "handleEvent d this =
           ((if assigned ob this
             then [Notify ob
                     (if ob = OnStateChange then arg_state (msg_args d) else renderer.state this)
                     (event_arg ob (msg_args d))]
             else []),
            (if ob = OnStateChange then this\<lparr>renderer.state := arg_state (msg_args d)\<rparr>
             else this))"
  using event_of_cases[OF assms]
  by (elim disjE conjE) (simp_all add: handleEvent_def notify_def Let_def)

lemma event_of_names: "(event_of m = None) = (m \<notin> Str ` set event_names)"
  unfolding event_of_def event_names_def by (simp add: image_iff) 

lemma handleEvent_unrecognized:
  assumes "event_of (msg_message d) = None"
  shows "handleEvent d this = ([], this)"
proof -
  have "msg_message d \<notin> Str ` set event_names"
    using assms by (simp add: event_of_names)
  then show ?thesis
    by (simp add: event_names_def handleEvent_def Let_def)
qed

text \<open>
  Claim C5. For a payload without an id that carries one of the nine event names, the
  observer of that name, and no other, is called when a callback is assigned to it, once
  and with the argument of that event; nothing else is done outside. A state-change event
  stores the delivered state as the cached state first, so that its observer is called
  with the Renderer already holding the new state, and changes no other field; every
  other event leaves the Renderer as it is. A payload whose message is none of the nine
  names notifies nobody and leaves the Renderer as it is.
\<close>

theorem event_effects:
  assumes "msg_id d = None \<or> msg_id d = Some []"
  shows "\<exists>out this'. handleMessage (Data d) this = Inr (out, this')
     \<and> (\<forall>ob. event_of (msg_message d) = Some ob \<longrightarrow>
          out = (if assigned ob this
                 then [Notify ob (renderer.state this') (event_arg ob (msg_args d))]
                 else [])
          \<and> this' = (if ob = OnStateChange
                     then this\<lparr>renderer.state := arg_state (msg_args d)\<rparr>
                     else this))
     \<and> (msg_message d = Str ''onStateChange'' \<longrightarrow>
          this' = this\<lparr>renderer.state := arg_state (msg_args d)\<rparr>
          \<and> out = (if onStateChange this
                   then [Notify OnStateChange (arg_state (msg_args d))
                           (StateArg (arg_state (msg_args d)))]
                   else []))
     \<and> (msg_message d \<noteq> Str ''onStateChange'' \<longrightarrow>
          this' = this \<and> length out \<le> 1 \<and> (\<forall>e\<in>set out. is_notification e))
     \<and> (msg_message d \<notin> Str ` set event_names \<longrightarrow> out = [] \<and> this' = this)"
proof -
  have hm: "handleMessage (Data d) this = Inr (handleEvent d this)"
    using assms by (auto simp: handleMessage_def)
  show ?thesis
  proof (cases "event_of (msg_message d)")
    case None
    then have "handleEvent d this = ([], this)"
      by (rule handleEvent_unrecognized)
    moreover have "msg_message d \<noteq> Str ''onStateChange''"
      using None by (auto simp: event_of_def)
    ultimately show ?thesis
      using None by (simp add: hm)
  next
    case (Some ob)
    have known: "msg_message d \<in> Str ` set event_names"
      using Some event_of_names[of "msg_message d"] by simp
    have which: "(msg_message d = Str ''onStateChange'') = (ob = OnStateChange)"
      using Some by (auto simp: event_of_def split: if_splits)
    show ?thesis
      unfolding hm handleEvent_recognized[OF Some]
      using Some known which by auto
  qed
qed

text \<open>
  On a Renderer with observers for state changes and time changes: a state-change event,
  a time-change event, and a payload with an unknown message.
\<close>

theorem event_effects_witness:
  "(\<exists>out this'.
      handleMessage
        (Data \<lparr> msg_id = None, msg_message = Str ''onStateChange'', msg_error = Undefined,
                msg_args = \<lparr> arg_state = Some two_elements, arg_fields = [] \<rparr> \<rparr>)
        ((Renderer_new True ''interactive'' ''token'')
           \<lparr>onTimeChange := True, onStateChange := True\<rparr>) = Inr (out, this')
      \<and> renderer.state this' = Some two_elements
      \<and> out = [Notify OnStateChange (Some two_elements) (StateArg (Some two_elements))])
   \<and> (\<exists>out this'.
      handleMessage
        (Data \<lparr> msg_id = None, msg_message = Str ''onTimeChange'', msg_error = Undefined,
                msg_args = \<lparr> arg_state = None, arg_fields = [(''time'', Num 2)] \<rparr> \<rparr>)
        ((Renderer_new True ''interactive'' ''token'')
           \<lparr>onTimeChange := True, onStateChange := True\<rparr>) = Inr (out, this')
      \<and> this' = (Renderer_new True ''interactive'' ''token'')
                  \<lparr>onTimeChange := True, onStateChange := True\<rparr>
      \<and> out = [Notify OnTimeChange None (JsArg (Num 2))])
   \<and> (\<exists>out this'.
      handleMessage
        (Data \<lparr> msg_id = Some [], msg_message = Str ''onResize'', msg_error = Undefined,
                msg_args = \<lparr> arg_state = Some two_elements, arg_fields = [] \<rparr> \<rparr>)
        ((Renderer_new True ''interactive'' ''token'')
           \<lparr>onTimeChange := True, onStateChange := True\<rparr>) = Inr (out, this')
      \<and> this' = (Renderer_new True ''interactive'' ''token'')
                  \<lparr>onTimeChange := True, onStateChange := True\<rparr>
      \<and> out = [])"
  using
    event_effects[of "\<lparr> msg_id = None, msg_message = Str ''onStateChange'', msg_error = Undefined,
             msg_args = \<lparr> arg_state = Some two_elements, arg_fields = [] \<rparr> \<rparr>"
      "(Renderer_new True ''interactive'' ''token'')\<lparr>onTimeChange := True, onStateChange := True\<rparr>"]
    event_effects[of "\<lparr> msg_id = None, msg_message = Str ''onTimeChange'', msg_error = Undefined,
             msg_args = \<lparr> arg_state = None, arg_fields = [(''time'', Num 2)] \<rparr> \<rparr>"
      "(Renderer_new True ''interactive'' ''token'')\<lparr>onTimeChange := True, onStateChange := True\<rparr>"]
    event_effects[of "\<lparr> msg_id = Some [], msg_message = Str ''onResize'', msg_error = Undefined,
             msg_args = \<lparr> arg_state = Some two_elements, arg_fields = [] \<rparr> \<rparr>"
      "(Renderer_new True ''interactive'' ''token'')\<lparr>onTimeChange := True, onStateChange := True\<rparr>"]
  by (auto simp: Renderer_new_def event_names_def event_of_def field_def)

section \<open>Outbound commands\<close>

text \<open>
  Claim C8, as stated, fails: the payload posted by \<^verbatim>\<open>play()\<close> has the command's name
  under the key \<^verbatim>\<open>message\<close> and has no key \<^verbatim>\<open>name\<close>.
\<close>

theorem play_payload_counterexample:
  "posted (fst (call ''c1'' 0 Play (Renderer_new True ''interactive'' ''token'')))
     = [[(''id'', Str ''c1''), (''message'', Str ''play'')]]
   \<and> field (hd (posted (fst (call ''c1'' 0 Play (Renderer_new True ''interactive'' ''token''))))) ''name''
     = Undefined"
  by (simp add: call_def sendCommand_def Renderer_new_def spread_def json_roundtrip_fields_def
      field_def)

text \<open>
  Claim C8, amended. A command posts, when the iframe has its window, one payload: the
  generated id under \<^verbatim>\<open>id\<close>, the command's name under \<^verbatim>\<open>message\<close>, then the command's
  parameters as they come out of the JSON round trip; and the call is stored as pending
  under that same id.
\<close>

theorem command_payload:
  "posted (fst (call uid p c this))
     = (if iframe_attached this
        then [(''id'', Str uid) # (''message'', Str (command_name c))
              # json_roundtrip_fields (command_params c)]
        else [])
   \<and> map_of (pendingPromises (snd (call uid p c this))) uid = Some p"
  by (cases c)
    (simp_all add: call_def sendCommand_def spread_def json_roundtrip_fields_def
      command_name_def command_params_def update_conv')

text \<open>
  A Renderer built on a host that is in no document has no \<^verbatim>\<open>contentWindow\<close>: its
  commands are stored as pending and nothing is posted.
\<close>

lemma detached_host_posts_nothing:
  "posted (fst (call uid p c (Renderer_new False mode publicToken))) = []
   \<and> map_of (pendingPromises (snd (call uid p c (Renderer_new False mode publicToken)))) uid
       = Some p"
  by (simp add: call_def sendCommand_def Renderer_new_def)

section \<open>Cached time and active element of the store\<close>

text \<open>
  Claim C9, as stated, fails: \<^verbatim>\<open>setTime(5)\<close> on a new store, whose cached time is 0,
  leaves the cached time at 5 with no event applied.
\<close>

theorem setTime_counterexample:
  "time VideoCreatorStore_new = 0 \<and> time (snd (setTime ''c1'' 0 5 VideoCreatorStore_new)) = 5"
  by (simp add: setTime_def VideoCreatorStore_new_def)

text \<open>
  Claim C9, amended. \<^verbatim>\<open>VideoCreatorStore.setTime(t)\<close> itself sets the cached time to \<open>t\<close>
  (\<^verbatim>\<open>Renderer.setTime\<close> only sends the command: the cached state of the Renderer stays).
  A time-change event sets the cached time to the time it delivers when the store is not
  scrubbing, and leaves the cached time unchanged while it is.
\<close>

theorem cached_time_updates:
  "time (snd (setTime uid p t this)) = t
   \<and> renderer.state (snd (call uid p (SetTime t) r)) = renderer.state r
   \<and> time (onTimeChange_observer t' this) = (if isScrubbing this then time this else t')"
  by (simp add: setTime_def onTimeChange_observer_def call_def sendCommand_def Let_def
      split: option.splits prod.splits)

text \<open>On the one instance of the program the lookup is that of the instance's own first id.\<close>

lemma getActiveElement_singleton:
  "getActiveElement this this = own_active_element this"
  by (simp add: getActiveElement_def own_active_element_def split: option.splits list.splits)



end
